theory Spec2Isabelle
  imports Main
begin

section \<open>Data model (models.py)\<close>

text \<open>
  A calendar date is its proleptic ordinal (Python's \<open>date.toordinal()\<close>): the views
  and the serializer only compare dates, and the comparison of dates is the comparison
  of ordinals.
\<close>

type_synonym date = nat

text \<open>The fields of Django's built-in \<open>User\<close> that the views read.\<close>

record User =
  user_id :: nat
  username :: string
  first_name :: string
  last_name :: string
  email :: string
  is_superuser :: bool

text \<open>
  \<open>Employee.user\<close> is a one-to-one, non-null, cascading reference: every row has
  exactly one user, which is stored in the row. \<open>Employee.manager\<close> is a nullable
  reference to another row, held as that row's primary key.
\<close>

record Employee =
  emp_id :: nat
  user :: User
  is_manager :: bool
  emp_manager :: "nat option"
  employee_status :: string
  date_created :: date

record Admin =
  admin_id :: nat
  admin_user :: nat

record Request =
  req_id :: nat
  employee :: "nat option"
  manager :: "nat option"
  purpose_of_travel :: string
  mode_of_travel :: string
  from_date :: date
  to_date :: date
  from_where :: string
  to_where :: string
  lodging :: bool
  lodging_info :: "string option"
  additional_request :: "string option"
  additional_info :: "string option"
  message_from_manager :: "string option"
  message_from_admin :: "string option"
  date_of_request :: date
  date_of_approval :: "date option"
  date_of_rejection :: "date option"
  date_of_revert :: "date option"
  resubmission_request :: bool
  is_resubmitted :: bool
  status_of_request :: string

definition MODE_CHOICES :: "string list" where
  "MODE_CHOICES = [''flight'', ''train'', ''own vehicle'', ''ship'']"

definition STATUS_CHOICES :: "string list" where
  "STATUS_CHOICES =
     [''to_submit'', ''submitted'', ''rejected'', ''reverted'', ''approved'', ''closed'']"

section \<open>The database, the mail outbox and the outcome of a view\<close>

record mail =
  subject :: string
  message :: string
  from_email :: string
  recipient_list :: "string list"

text \<open>
  The state the views read and write: the three tables, the last primary key the
  database has given to a request (a key is not given twice, also after a row is
  deleted), and the mails handed to \<open>send_mail\<close> so far.
\<close>

record db =
  employees :: "Employee list"
  admins :: "Admin list"
  requests :: "Request list"
  request_seq :: nat
  outbox :: "mail list"

text \<open>\<open>request.user\<close>: the authenticated user, or Django's \<open>AnonymousUser\<close>.\<close>

datatype principal = AnonymousUser | Authenticated User

text \<open>
  Python exceptions that no handler of the views or of the REST framework catches;
  they leave the view as a server error.
\<close>

datatype exn = AttributeError | DoesNotExist | ValidationError | IntegrityError

text \<open>
  The exceptions of the REST framework, which its exception handler turns into a
  response with a \<open>detail\<close> message (status 401 or 403).
\<close>

datatype api_exception = NotAuthenticated | PermissionDenied | AuthenticationFailed

datatype body =
    Dict "(string \<times> string) list"
  | SerializerErrors "(string \<times> string) list"
  | SerializedRequest Request
  | SerializedRequests "Request list"

datatype outcome =
    Response body nat
  | APIException api_exception
  | Unhandled exn

definition HTTP_200_OK :: nat where "HTTP_200_OK = 200"
definition HTTP_400_BAD_REQUEST :: nat where "HTTP_400_BAD_REQUEST = 400"
definition HTTP_404_NOT_FOUND :: nat where "HTTP_404_NOT_FOUND = 404"

subsection \<open>Queries\<close>

text \<open>\<open>Employee.objects.get(user=request.user)\<close>; \<open>None\<close> is \<open>Employee.DoesNotExist\<close>.\<close>

definition get_employee_by_user :: "db \<Rightarrow> User \<Rightarrow> Employee option" where
  "get_employee_by_user s u = find (\<lambda>e. user_id (user e) = user_id u) (employees s)"

text \<open>\<open>Employee.objects.get(pk=...)\<close>.\<close>

definition get_employee :: "db \<Rightarrow> nat \<Rightarrow> Employee option" where
  "get_employee s k = find (\<lambda>e. emp_id e = k) (employees s)"

text \<open>\<open>Admin.objects.get(user=request.user)\<close>.\<close>

definition get_admin_by_user :: "db \<Rightarrow> User \<Rightarrow> Admin option" where
  "get_admin_by_user s u = find (\<lambda>a. admin_user a = user_id u) (admins s)"

text \<open>\<open>Request.objects.get(pk=request_id)\<close>.\<close>

definition get_request :: "db \<Rightarrow> nat \<Rightarrow> Request option" where
  "get_request s k = find (\<lambda>r. req_id r = k) (requests s)"

text \<open>
  Following a nullable foreign key to \<open>Employee\<close> and reading an attribute of the
  result, as in \<open>selected_request.employee.user\<close>: on a null reference the attribute
  access raises \<open>AttributeError\<close>; a key with no row raises \<open>DoesNotExist\<close>.
\<close>

definition related_employee :: "db \<Rightarrow> nat option \<Rightarrow> exn + Employee" where
  "related_employee s ref =
     (case ref of
        None \<Rightarrow> Inl AttributeError
      | Some k \<Rightarrow> (case get_employee s k of None \<Rightarrow> Inl DoesNotExist | Some e \<Rightarrow> Inr e))"

text \<open>
  \<open>selected_request.employee != employee\<close>: a null reference differs from every
  employee; two model instances are equal when their primary keys are.
\<close>

definition employee_differs :: "db \<Rightarrow> nat option \<Rightarrow> Employee \<Rightarrow> exn + bool" where
  "employee_differs s ref e =
     (case ref of
        None \<Rightarrow> Inr True
      | Some k \<Rightarrow>
          (case get_employee s k of
             None \<Rightarrow> Inl DoesNotExist
           | Some e' \<Rightarrow> Inr (emp_id e' \<noteq> emp_id e)))"

text \<open>\<open>instance.save()\<close> of an existing row: the row with that primary key is replaced.\<close>

definition save_request :: "Request \<Rightarrow> db \<Rightarrow> db" where
  "save_request r s =
     s\<lparr>requests := map (\<lambda>x. if req_id x = req_id r then r else x) (requests s)\<rparr>"

text \<open>The primary key the database gives a new request: the next of its sequence.\<close>

definition next_request_id :: "db \<Rightarrow> nat" where
  "next_request_id s = Suc (request_seq s)"

definition send_mail :: "string \<Rightarrow> string \<Rightarrow> string \<Rightarrow> string list \<Rightarrow> db \<Rightarrow> db" where
  "send_mail subj msg frm rcpts s =
     s\<lparr>outbox := outbox s @
        [\<lparr>subject = subj, message = msg, from_email = frm, recipient_list = rcpts\<rparr>]\<rparr>"

section \<open>Python values as text\<close>

text \<open>\<open>str(n)\<close> of a non-negative integer, as an f-string formats a primary key.\<close>

fun str_nat :: "nat \<Rightarrow> string" where
  "str_nat n =
     (if n < 10 then [char_of (48 + n)] else str_nat (n div 10) @ [char_of (48 + n mod 10)])"

declare str_nat.simps [simp del]

text \<open>An f-string formats \<open>None\<close> as the text \<open>None\<close>.\<close>

definition str_opt :: "string option \<Rightarrow> string" where
  "str_opt v = (case v of None \<Rightarrow> ''None'' | Some t \<Rightarrow> t)"

text \<open>Truth value of an optional string: \<open>None\<close> and the empty string are false.\<close>

definition truthy :: "string option \<Rightarrow> bool" where
  "truthy v = (case v of None \<Rightarrow> False | Some t \<Rightarrow> t \<noteq> [])"

section \<open>TravelSerializer (serializers.py)\<close>

text \<open>
  The input of the serializer, after each field has parsed its value: \<open>None\<close> is a
  key that is absent. A nullable field can also be present with the value null
  (\<open>Some None\<close>). \<open>id\<close> and \<open>date_of_request\<close> (\<open>auto_now_add\<close>) are not editable
  and have no key. \<open>employee\<close> and \<open>manager\<close> can be sent, but the serializer
  declares both read-only.
\<close>

record travel_data =
  d_employee :: "nat option"
  d_manager :: "nat option"
  d_purpose_of_travel :: "string option"
  d_mode_of_travel :: "string option"
  d_from_date :: "date option"
  d_to_date :: "date option"
  d_from_where :: "string option"
  d_to_where :: "string option"
  d_lodging :: "bool option"
  d_lodging_info :: "string option option"
  d_additional_request :: "string option option"
  d_additional_info :: "string option option"
  d_message_from_manager :: "string option option"
  d_message_from_admin :: "string option option"
  d_date_of_approval :: "date option option"
  d_date_of_rejection :: "date option option"
  d_date_of_revert :: "date option option"
  d_resubmission_request :: "bool option"
  d_is_resubmitted :: "bool option"
  d_status_of_request :: "string option"

text \<open>The input with no key at all.\<close>

definition no_data :: travel_data where
  "no_data =
     \<lparr>d_employee = None, d_manager = None, d_purpose_of_travel = None,
      d_mode_of_travel = None, d_from_date = None, d_to_date = None, d_from_where = None,
      d_to_where = None, d_lodging = None, d_lodging_info = None,
      d_additional_request = None, d_additional_info = None,
      d_message_from_manager = None, d_message_from_admin = None,
      d_date_of_approval = None, d_date_of_rejection = None, d_date_of_revert = None,
      d_resubmission_request = None, d_is_resubmitted = None, d_status_of_request = None\<rparr>"

type_synonym errors = "(string \<times> string) list"

subsection \<open>Field validation of the framework, from the declarations of models.py\<close>

text \<open>A field without a default is required, except in a partial update.\<close>

definition required_error :: "bool \<Rightarrow> string \<Rightarrow> 'a option \<Rightarrow> errors" where
  "required_error partial name v =
     (if v = None \<and> \<not> partial then [(name, ''This field is required.'')] else [])"

definition max_length_error :: "string \<Rightarrow> nat \<Rightarrow> string \<Rightarrow> errors" where
  "max_length_error name n t =
     (if n < length t
      then [(name, ''Ensure this field has no more than '' @ str_nat n @ '' characters.'')]
      else [])"

text \<open>
  A text is a list of code points below 256. \<open>str.strip()\<close> removes the white space
  of Python at both ends: the characters for which \<open>str.isspace\<close> holds.
\<close>

definition whitespace :: "char list" where
  "whitespace =
     [CHR 0x09, CHR 0x0A, CHR 0x0B, CHR 0x0C, CHR 0x0D, CHR 0x1C, CHR 0x1D, CHR 0x1E,
      CHR 0x1F, CHR 0x20, CHR 0x85, CHR 0xA0]"

definition strip :: "string \<Rightarrow> string" where
  "strip t =
     rev (dropWhile (\<lambda>c. c \<in> set whitespace) (rev (dropWhile (\<lambda>c. c \<in> set whitespace) t)))"

text \<open>The validator of every text field that prohibits the character NUL.\<close>

definition null_characters_error :: "string \<Rightarrow> string \<Rightarrow> errors" where
  "null_characters_error name t =
     (if CHR 0x00 \<in> set t then [(name, ''Null characters are not allowed.'')] else [])"

text \<open>
  \<open>CharField(max_length=n)\<close>: required and not blank. The field trims white space
  (\<open>trim_whitespace\<close>): a text of white space only counts as blank, and the validators
  see the stripped text.
\<close>

definition char_field :: "bool \<Rightarrow> string \<Rightarrow> nat \<Rightarrow> string option \<Rightarrow> errors" where
  "char_field partial name n v =
     (case v of
        None \<Rightarrow> required_error partial name v
      | Some t \<Rightarrow>
          if strip t = [] then [(name, ''This field may not be blank.'')]
          else max_length_error name n (strip t) @ null_characters_error name (strip t))"

text \<open>
  \<open>CharField(max_length=n, blank=True, null=True)\<close>: null and a blank text pass
  without running the validators.
\<close>

definition nullable_char_field :: "string \<Rightarrow> nat \<Rightarrow> string option option \<Rightarrow> errors" where
  "nullable_char_field name n v =
     (case v of
        Some (Some t) \<Rightarrow>
          if strip t = [] then []
          else max_length_error name n (strip t) @ null_characters_error name (strip t)
      | _ \<Rightarrow> [])"

text \<open>The values the text fields hand on: the stripped text.\<close>

definition stripped :: "string option \<Rightarrow> string option" where
  "stripped v = map_option strip v"

definition stripped_nullable :: "string option option \<Rightarrow> string option option" where
  "stripped_nullable v = map_option (map_option strip) v"

text \<open>A field with \<open>choices\<close>.\<close>

definition choice_field :: "string \<Rightarrow> string list \<Rightarrow> string option \<Rightarrow> errors" where
  "choice_field name choices v =
     (case v of
        None \<Rightarrow> []
      | Some t \<Rightarrow>
          if t \<in> set choices then []
          else [(name, [CHR 0x22] @ t @ [CHR 0x22] @ '' is not a valid choice.'')])"

text \<open>
  The validated data: the values of the writable fields only, so a read-only key is
  dropped, with every text stripped.
\<close>

definition writable_values :: "travel_data \<Rightarrow> travel_data" where
  "writable_values data =
     data\<lparr>d_employee := None, d_manager := None,
          d_purpose_of_travel := stripped (d_purpose_of_travel data),
          d_from_where := stripped (d_from_where data),
          d_to_where := stripped (d_to_where data),
          d_lodging_info := stripped_nullable (d_lodging_info data),
          d_additional_request := stripped_nullable (d_additional_request data),
          d_additional_info := stripped_nullable (d_additional_info data),
          d_message_from_manager := stripped_nullable (d_message_from_manager data),
          d_message_from_admin := stripped_nullable (d_message_from_admin data)\<rparr>"

text \<open>
  \<open>to_internal_value\<close>: every writable field validates its key and the errors of all
  fields are collected.
\<close>

definition to_internal_value :: "bool \<Rightarrow> travel_data \<Rightarrow> errors + travel_data" where
  "to_internal_value partial data =
     (let errs =
        char_field partial ''purpose_of_travel'' 100 (d_purpose_of_travel data) @
        required_error partial ''mode_of_travel'' (d_mode_of_travel data) @
        choice_field ''mode_of_travel'' MODE_CHOICES (d_mode_of_travel data) @
        required_error partial ''from_date'' (d_from_date data) @
        required_error partial ''to_date'' (d_to_date data) @
        char_field partial ''from_where'' 100 (d_from_where data) @
        char_field partial ''to_where'' 100 (d_to_where data) @
        nullable_char_field ''lodging_info'' 100 (d_lodging_info data) @
        nullable_char_field ''additional_request'' 500 (d_additional_request data) @
        nullable_char_field ''additional_info'' 500 (d_additional_info data) @
        nullable_char_field ''message_from_manager'' 300 (d_message_from_manager data) @
        nullable_char_field ''message_from_admin'' 300 (d_message_from_admin data) @
        choice_field ''status_of_request'' STATUS_CHOICES (d_status_of_request data)
      in if errs = [] then Inr (writable_values data) else Inl errs)"

subsection \<open>TravelSerializer.validate\<close>

text \<open>
  \<open>data.get(key)\<close> is \<open>None\<close> for an absent key and for a null value. A date and a
  model instance are always true; \<open>not lodging_info\<close> holds for \<open>None\<close> and for the
  empty string.
\<close>

definition validate :: "travel_data \<Rightarrow> errors + travel_data" where
  "validate data =
     (let from_date = d_from_date data;
          to_date = d_to_date data;
          lodging = d_lodging data;
          lodging_info = (case d_lodging_info data of None \<Rightarrow> None | Some v \<Rightarrow> v);
          employee = d_employee data;
          manager = d_manager data
      in if (case (from_date, to_date) of (Some f, Some t) \<Rightarrow> t \<le> f | _ \<Rightarrow> False)
         then Inl [(''date_error'', ''From date must be earlier than To date.'')]
         else if lodging = Some True \<and> \<not> truthy lodging_info
         then Inl [(''lodging_info'',
                    ''Lodging details are required when lodging is requested.'')]
         else if employee \<noteq> None \<and> manager \<noteq> None \<and> employee = manager
         then Inl [(''manager_error'', ''Employee cannot be their own manager.'')]
         else Inr data)"

text \<open>
  \<open>is_valid()\<close>: the fields first, \<open>validate\<close> only when no field failed. \<open>Inl\<close> is
  \<open>serialized.errors\<close>, \<open>Inr\<close> is \<open>validated_data\<close>.
\<close>

definition is_valid :: "bool \<Rightarrow> travel_data \<Rightarrow> errors + travel_data" where
  "is_valid partial data =
     (case to_internal_value partial data of
        Inl errs \<Rightarrow> Inl errs
      | Inr attrs \<Rightarrow> validate attrs)"

subsection \<open>save\<close>

text \<open>
  \<open>ModelSerializer.update\<close>: every key of the validated data is assigned to the
  instance; a key that is absent leaves the attribute as it is.
\<close>

definition upd :: "'a option \<Rightarrow> 'a \<Rightarrow> 'a" where
  "upd v old = (case v of None \<Rightarrow> old | Some new \<Rightarrow> new)"

definition update :: "Request \<Rightarrow> travel_data \<Rightarrow> Request" where
  "update instance v =
     instance\<lparr>
       employee := (case d_employee v of None \<Rightarrow> employee instance | Some k \<Rightarrow> Some k),
       manager := (case d_manager v of None \<Rightarrow> manager instance | Some k \<Rightarrow> Some k),
       purpose_of_travel := upd (d_purpose_of_travel v) (purpose_of_travel instance),
       mode_of_travel := upd (d_mode_of_travel v) (mode_of_travel instance),
       from_date := upd (d_from_date v) (from_date instance),
       to_date := upd (d_to_date v) (to_date instance),
       from_where := upd (d_from_where v) (from_where instance),
       to_where := upd (d_to_where v) (to_where instance),
       lodging := upd (d_lodging v) (lodging instance),
       lodging_info := upd (d_lodging_info v) (lodging_info instance),
       additional_request := upd (d_additional_request v) (additional_request instance),
       additional_info := upd (d_additional_info v) (additional_info instance),
       message_from_manager := upd (d_message_from_manager v) (message_from_manager instance),
       message_from_admin := upd (d_message_from_admin v) (message_from_admin instance),
       date_of_approval := upd (d_date_of_approval v) (date_of_approval instance),
       date_of_rejection := upd (d_date_of_rejection v) (date_of_rejection instance),
       date_of_revert := upd (d_date_of_revert v) (date_of_revert instance),
       resubmission_request := upd (d_resubmission_request v) (resubmission_request instance),
       is_resubmitted := upd (d_is_resubmitted v) (is_resubmitted instance),
       status_of_request := upd (d_status_of_request v) (status_of_request instance)\<rparr>"

text \<open>
  \<open>ModelSerializer.create\<close>: a new row from the validated data, with the model's
  defaults for the keys that are absent, the primary key of the database and
  \<open>date_of_request\<close> set to today (\<open>auto_now_add\<close>). A text column without a value
  gets the empty text. The two date columns have neither a default nor \<open>null=True\<close> and
  cannot be stored without a value: \<open>None\<close> is the integrity error of the database.
\<close>

definition create :: "nat \<Rightarrow> date \<Rightarrow> travel_data \<Rightarrow> Request option" where
  "create k today v =
     (case (d_from_date v, d_to_date v) of
        (Some f, Some t) \<Rightarrow>
          Some \<lparr>req_id = k,
                employee = d_employee v,
                manager = d_manager v,
                purpose_of_travel = upd (d_purpose_of_travel v) [],
                mode_of_travel = upd (d_mode_of_travel v) [],
                from_date = f,
                to_date = t,
                from_where = upd (d_from_where v) [],
                to_where = upd (d_to_where v) [],
                lodging = upd (d_lodging v) False,
                lodging_info = upd (d_lodging_info v) None,
                additional_request = upd (d_additional_request v) None,
                additional_info = upd (d_additional_info v) None,
                message_from_manager = upd (d_message_from_manager v) None,
                message_from_admin = upd (d_message_from_admin v) None,
                date_of_request = today,
                date_of_approval = upd (d_date_of_approval v) None,
                date_of_rejection = upd (d_date_of_rejection v) None,
                date_of_revert = upd (d_date_of_revert v) None,
                resubmission_request = upd (d_resubmission_request v) False,
                is_resubmitted = upd (d_is_resubmitted v) False,
                status_of_request = upd (d_status_of_request v) ''to_submit''\<rparr>
      | _ \<Rightarrow> None)"

section \<open>Permissions (permissions.py)\<close>

definition IsAuthenticated :: "principal \<Rightarrow> bool" where
  "IsAuthenticated p = (p \<noteq> AnonymousUser)"

definition IsAdmin :: "principal \<Rightarrow> bool" where
  "IsAdmin p = (case p of AnonymousUser \<Rightarrow> False | Authenticated u \<Rightarrow> is_superuser u)"

definition IsManager :: "db \<Rightarrow> principal \<Rightarrow> bool" where
  "IsManager s p =
     (case p of
        AnonymousUser \<Rightarrow> False
      | Authenticated u \<Rightarrow>
          (case get_employee_by_user s u of None \<Rightarrow> False | Some e \<Rightarrow> is_manager e))"

definition IsEmployee :: "db \<Rightarrow> principal \<Rightarrow> bool" where
  "IsEmployee s p =
     (case p of
        AnonymousUser \<Rightarrow> False
      | Authenticated u \<Rightarrow>
          (case get_employee_by_user s u of None \<Rightarrow> False | Some e \<Rightarrow> \<not> is_manager e))"

text \<open>
  The decorator \<open>permission_classes\<close>: the view runs when every permission holds. A
  permission that fails raises \<open>NotAuthenticated\<close> for a request that carries no
  authenticated user and \<open>PermissionDenied\<close> otherwise, and the view does not run.
\<close>

definition permission_classes ::
  "bool list \<Rightarrow> principal \<Rightarrow> (User \<Rightarrow> 'a) \<Rightarrow> (api_exception \<Rightarrow> 'a) \<Rightarrow> 'a" where
  "permission_classes perms p view denied =
     (case p of
        AnonymousUser \<Rightarrow> denied NotAuthenticated
      | Authenticated u \<Rightarrow> if list_all (\<lambda>b. b) perms then view u else denied PermissionDenied)"

section \<open>Views (views.py)\<close>

definition from_email_address :: string where
  "from_email_address = ''umersaleh30570@gmail.com''"

definition newline :: string where
  "newline = [CHR 0x0A]"

subsection \<open>close_request_admin\<close>

definition close_request_admin_view ::
  "db \<Rightarrow> nat \<Rightarrow> string option \<Rightarrow> string option \<Rightarrow> outcome \<times> db" where
  "close_request_admin_view s request_id action note =
     (case get_request s request_id of
        None \<Rightarrow> (Response (Dict [(''error'', ''Request not found'')]) HTTP_404_NOT_FOUND, s)
      | Some selected_request \<Rightarrow>
          if status_of_request selected_request = ''approved'' then
            (case action of
               None \<Rightarrow>
                 (Response (Dict [(''message'', ''No action provided'')]) HTTP_404_NOT_FOUND, s)
             | Some a \<Rightarrow>
                 if a = [] then
                   (Response (Dict [(''message'', ''No action provided'')]) HTTP_404_NOT_FOUND, s)
                 else if a = ''close'' then
                   (let selected_status = ''closed'';
                        data = no_data\<lparr>d_status_of_request := Some selected_status,
                                       d_message_from_admin := Some note\<rparr>;
                        subj = ''Request submitted: Closed after Approval'';
                        msg = ''Note:'' @ str_opt note @ '' '' @ newline @
                              '' Your request for travel has been closed. Thanks & Regards. - Admin''
                    in case related_employee s (employee selected_request) of
                         Inl x \<Rightarrow> (Unhandled x, s)
                       | Inr e \<Rightarrow>
                           (let recipients = [email (user e)]
                            in case is_valid True data of
                                 Inr v \<Rightarrow>
                                   (Response (Dict [(''message'', ''Request status updated''),
                                                    (''action'', a)]) HTTP_200_OK,
                                    send_mail subj msg from_email_address recipients
                                      (save_request (update selected_request v) s))
                               | Inl errs \<Rightarrow>
                                   (Response (SerializerErrors errs) HTTP_400_BAD_REQUEST, s)))
                 else (Response (Dict [(''error'', ''Invalid action'')]) HTTP_400_BAD_REQUEST, s))
          else
            (Response (Dict [(''error'', ''Request not approved yet!'')]) HTTP_400_BAD_REQUEST, s))"

definition close_request_admin ::
  "db \<Rightarrow> principal \<Rightarrow> nat \<Rightarrow> string option \<Rightarrow> string option \<Rightarrow> outcome \<times> db" where
  "close_request_admin s p request_id action note =
     permission_classes [IsAuthenticated p, IsAdmin p] p
       (\<lambda>u. close_request_admin_view s request_id action note)
       (\<lambda>x. (APIException x, s))"

subsection \<open>action_request_manager\<close>

definition action_request_manager_view ::
  "db \<Rightarrow> date \<Rightarrow> nat \<Rightarrow> string option \<Rightarrow> string option \<Rightarrow> outcome \<times> db" where
  "action_request_manager_view s today request_id action note =
     (case get_request s request_id of
        None \<Rightarrow> (Response (Dict [(''error'', ''Request not found'')]) HTTP_404_NOT_FOUND, s)
      | Some selected_request \<Rightarrow>
          if status_of_request selected_request = ''submitted'' then
            (case action of
               None \<Rightarrow> (Response (Dict [(''message'', ''Invalid action'')]) HTTP_404_NOT_FOUND, s)
             | Some a \<Rightarrow>
                 if a = [] then
                   (Response (Dict [(''message'', ''Invalid action'')]) HTTP_404_NOT_FOUND, s)
                 else if a \<notin> set [''approve'', ''reject'', ''revert''] then
                   (Response (Dict [(''message'', ''Invalid action'')]) HTTP_404_NOT_FOUND, s)
                 else
                   (let selected_status =
                          (if a = ''approve'' then ''approved''
                           else if a = ''reject'' then ''rejected'' else ''reverted'');
                        stamp =
                          (if a = ''approve'' then no_data\<lparr>d_date_of_approval := Some (Some today)\<rparr>
                           else if a = ''reject''
                           then no_data\<lparr>d_date_of_rejection := Some (Some today)\<rparr>
                           else no_data\<lparr>d_date_of_revert := Some (Some today)\<rparr>);
                        instance =
                          (if a = ''revert'' then selected_request\<lparr>resubmission_request := True\<rparr>
                           else selected_request);
                        subj = ''Request '' @ selected_status;
                        msg = ''Note:'' @ str_opt note @ '' '' @ newline @
                              '' Your request for travel has been '' @ selected_status @
                              ''. Thanks & Regards. - Admin''
                    in case related_employee s (employee instance) of
                         Inl x \<Rightarrow> (Unhandled x, s)
                       | Inr e \<Rightarrow>
                           (let recipients = [email (user e)];
                                data = stamp\<lparr>d_status_of_request := Some selected_status,
                                             d_message_from_manager := Some note\<rparr>
                            in case is_valid True data of
                                 Inr v \<Rightarrow>
                                   (Response (Dict [(''message'', ''status updated''),
                                                    (''action'', a)]) HTTP_200_OK,
                                    send_mail subj msg from_email_address recipients
                                      (save_request (update instance v) s))
                               | Inl errs \<Rightarrow>
                                   (Response (SerializerErrors errs) HTTP_400_BAD_REQUEST, s))))
          else
            (Response (Dict [(''error'', ''Cannot Proceed with the action!'')])
               HTTP_400_BAD_REQUEST, s))"

definition action_request_manager ::
  "db \<Rightarrow> date \<Rightarrow> principal \<Rightarrow> nat \<Rightarrow> string option \<Rightarrow> string option \<Rightarrow> outcome \<times> db" where
  "action_request_manager s today p request_id action note =
     permission_classes [IsAuthenticated p, IsManager s p] p
       (\<lambda>u. action_request_manager_view s today request_id action note)
       (\<lambda>x. (APIException x, s))"

subsection \<open>action_request_employee (POST)\<close>

definition action_request_employee_view ::
  "db \<Rightarrow> User \<Rightarrow> nat \<Rightarrow> string option \<Rightarrow> outcome \<times> db" where
  "action_request_employee_view s u request_id action =
     (case get_request s request_id of
        None \<Rightarrow> (Response (Dict [(''error'', ''Request not found'')]) HTTP_404_NOT_FOUND, s)
      | Some selected_request \<Rightarrow>
     (case get_employee_by_user s u of
        None \<Rightarrow>
          (Response (Dict [(''error'', ''Employee does not exist  .'')]) HTTP_400_BAD_REQUEST, s)
      | Some emp \<Rightarrow>
     if employee selected_request = None then
       (Response (Dict [(''error'', ''You do not have an employee owning this.'')])
          HTTP_400_BAD_REQUEST, s)
     else
     (case employee_differs s (employee selected_request) emp of
        Inl x \<Rightarrow> (Unhandled x, s)
      | Inr True \<Rightarrow>
          (Response (Dict [(''error'', ''You do not have permission to perform this action.'')])
             HTTP_400_BAD_REQUEST, s)
      | Inr False \<Rightarrow>
     if action \<noteq> Some ''submit'' then
       (Response (Dict [(''message'', ''Invalid action'')]) HTTP_400_BAD_REQUEST, s)
     else if status_of_request selected_request \<notin> set [''to_submit'', ''reverted''] then
       (Response (Dict [(''message'', ''Invalid action'')]) HTTP_400_BAD_REQUEST, s)
     else
       (let instance =
              (if status_of_request selected_request = ''reverted''
               then selected_request\<lparr>is_resubmitted := True\<rparr> else selected_request);
            s1 = (if status_of_request selected_request = ''reverted''
                  then save_request instance s else s);
            selected_status = ''submitted'';
            subj =
              (if status_of_request instance = ''reverted''
               then ''Request '' @ selected_status @ '' from employee-'' @ str_nat (emp_id emp)
               else ''Request re'' @ selected_status @ '' from employee-'' @ str_nat (emp_id emp));
            msg =
              (if status_of_request instance = ''reverted''
               then ''I have '' @ selected_status @
                    '' a request for travel. Please look into the details. Thanks & Regards. - Admin''
               else ''I have re'' @ selected_status @
                    '' a request for travel. Please look into the details. Thanks & Regards. - Admin'')
        in case related_employee s1 (manager instance) of
             Inl x \<Rightarrow> (Unhandled x, s1)
           | Inr m \<Rightarrow>
               (let recipients = [email (user m)]
                in case is_valid True (no_data\<lparr>d_status_of_request := Some selected_status\<rparr>) of
                     Inr v \<Rightarrow>
                       (Response (Dict [(''message'', ''status updated''), (''action'', ''submit'')])
                          HTTP_200_OK,
                        send_mail subj msg from_email_address recipients
                          (save_request (update instance v) s1))
                   | Inl errs \<Rightarrow>
                       (Response (SerializerErrors errs) HTTP_400_BAD_REQUEST, s1))))))"

definition action_request_employee ::
  "db \<Rightarrow> principal \<Rightarrow> nat \<Rightarrow> string option \<Rightarrow> outcome \<times> db" where
  "action_request_employee s p request_id action =
     permission_classes [IsAuthenticated p, IsEmployee s p] p
       (\<lambda>u. action_request_employee_view s u request_id action)
       (\<lambda>x. (APIException x, s))"

subsection \<open>edit_request_employee\<close>

definition edit_request_employee_view ::
  "db \<Rightarrow> User \<Rightarrow> nat \<Rightarrow> travel_data \<Rightarrow> outcome \<times> db" where
  "edit_request_employee_view s u request_id data =
     (case get_request s request_id of
        None \<Rightarrow> (Response (Dict [(''error'', ''Request not found'')]) HTTP_404_NOT_FOUND, s)
      | Some selected_request \<Rightarrow>
     (case get_employee_by_user s u of
        None \<Rightarrow> (APIException AuthenticationFailed, s)
      | Some emp \<Rightarrow>
     (case employee_differs s (employee selected_request) emp of
        Inl x \<Rightarrow> (Unhandled x, s)
      | Inr True \<Rightarrow>
          (Response (Dict [(''error'', ''You do not have permission to edit this request'')])
             HTTP_400_BAD_REQUEST, s)
      | Inr False \<Rightarrow>
          (case is_valid True data of
             Inr v \<Rightarrow>
               (Response (SerializedRequest (update selected_request v)) HTTP_200_OK,
                save_request (update selected_request v) s)
           | Inl errs \<Rightarrow> (Response (SerializerErrors errs) HTTP_404_NOT_FOUND, s)))))"

definition edit_request_employee ::
  "db \<Rightarrow> principal \<Rightarrow> nat \<Rightarrow> travel_data \<Rightarrow> outcome \<times> db" where
  "edit_request_employee s p request_id data =
     permission_classes [IsAuthenticated p, IsEmployee s p] p
       (\<lambda>u. edit_request_employee_view s u request_id data)
       (\<lambda>x. (APIException x, s))"

subsection \<open>emp_request_form\<close>

text \<open>
  \<open>serialized.save(employee=..., manager=..., status_of_request="submitted")\<close> adds
  the three keyword arguments to the validated data, over any key of the same name,
  and creates the row.
\<close>

definition emp_request_form_view ::
  "db \<Rightarrow> date \<Rightarrow> User \<Rightarrow> travel_data \<Rightarrow> outcome \<times> db" where
  "emp_request_form_view s today u data =
     (case get_employee_by_user s u of
        None \<Rightarrow> (APIException AuthenticationFailed, s)
      | Some emp \<Rightarrow>
          (let subj = ''Request submitted from employee-'' @ str_nat (emp_id emp);
               msg = ''I have submitted a request for travel. Please look into the details. Thanks & Regards. - Admin''
           in case related_employee s (emp_manager emp) of
                Inl x \<Rightarrow> (Unhandled x, s)
              | Inr m \<Rightarrow>
                  (let recipients = [email (user m)]
                   in case is_valid False data of
                        Inr v \<Rightarrow>
                          (case create (next_request_id s) today
                                  (v\<lparr>d_employee := Some (emp_id emp),
                                     d_manager := Some (emp_id m),
                                     d_status_of_request := Some ''submitted''\<rparr>) of
                             None \<Rightarrow> (Unhandled IntegrityError, s)
                           | Some r \<Rightarrow>
                               (Response (Dict [(''message'', ''Request Submitted'')]) HTTP_200_OK,
                                send_mail subj msg from_email_address recipients
                                  (s\<lparr>requests := requests s @ [r],
                                     request_seq := next_request_id s\<rparr>)))
                      | Inl errs \<Rightarrow>
                          (Response (SerializerErrors errs) HTTP_400_BAD_REQUEST, s))))"

definition emp_request_form ::
  "db \<Rightarrow> date \<Rightarrow> principal \<Rightarrow> travel_data \<Rightarrow> outcome \<times> db" where
  "emp_request_form s today p data =
     permission_classes [IsAuthenticated p, IsEmployee s p] p
       (\<lambda>u. emp_request_form_view s today u data)
       (\<lambda>x. (APIException x, s))"

subsection \<open>Query sets of the listing views\<close>

text \<open>
  A date parameter of the query string that is not empty: a text that the date column
  parses, or one that it rejects, on which \<open>filter\<close> raises Django's
  \<open>ValidationError\<close>. An absent key and an empty text are both \<open>None\<close> (both are
  false in \<open>if start_date\<close>).
\<close>

datatype date_param = Malformed | Wellformed date

record query_params =
  q_status :: "string option"
  q_sort_by :: "string option"
  q_start_date :: "date_param option"
  q_end_date :: "date_param option"
  q_search_name :: "string option"

fun startswith :: "string \<Rightarrow> string \<Rightarrow> bool" where
  "startswith _ [] = True"
| "startswith [] (_ # _) = False"
| "startswith (x # xs) (y # ys) = (x = y \<and> startswith xs ys)"

definition lstrip :: "char \<Rightarrow> string \<Rightarrow> string" where
  "lstrip c t = dropWhile (\<lambda>x. x = c) t"

fun contains :: "string \<Rightarrow> string \<Rightarrow> bool" where
  "contains [] q = (q = [])"
| "contains (x # xs) q = (startswith (x # xs) q \<or> contains xs q)"

definition lower_char :: "char \<Rightarrow> char" where
  "lower_char c =
     (let n = (of_char c :: nat) in if 65 \<le> n \<and> n \<le> 90 then char_of (n + 32) else c)"

text \<open>The lookup \<open>icontains\<close>: a substring, letters compared without case.\<close>

definition icontains :: "string \<Rightarrow> string \<Rightarrow> bool" where
  "icontains t q = contains (map lower_char t) (map lower_char q)"

text \<open>\<open>data.filter(status_of_request=status_filter)\<close>, under \<open>if status_filter\<close>.\<close>

definition filter_status :: "string option \<Rightarrow> Request list \<Rightarrow> Request list" where
  "filter_status status_filter data =
     (case status_filter of
        None \<Rightarrow> data
      | Some st \<Rightarrow> if st = [] then data else filter (\<lambda>r. status_of_request r = st) data)"

text \<open>The three branches on \<open>start_date\<close> and \<open>end_date\<close>; the bounds are inclusive.\<close>

definition filter_date_of_request ::
  "date_param option \<Rightarrow> date_param option \<Rightarrow> Request list \<Rightarrow> exn + Request list" where
  "filter_date_of_request start_date end_date data =
     (case (start_date, end_date) of
        (Some (Wellformed a), Some (Wellformed b)) \<Rightarrow>
          Inr (filter (\<lambda>r. a \<le> date_of_request r \<and> date_of_request r \<le> b) data)
      | (Some _, Some _) \<Rightarrow> Inl ValidationError
      | (Some (Wellformed a), None) \<Rightarrow> Inr (filter (\<lambda>r. a \<le> date_of_request r) data)
      | (Some Malformed, None) \<Rightarrow> Inl ValidationError
      | (None, Some (Wellformed b)) \<Rightarrow> Inr (filter (\<lambda>r. date_of_request r \<le> b) data)
      | (None, Some Malformed) \<Rightarrow> Inl ValidationError
      | (None, None) \<Rightarrow> Inr data)"

text \<open>
  The two \<open>Q\<close> objects on the name of the employee's user, under \<open>if search_name\<close>;
  a request without an employee matches neither.
\<close>

definition filter_search_name :: "db \<Rightarrow> string option \<Rightarrow> Request list \<Rightarrow> Request list" where
  "filter_search_name s search_name data =
     (case search_name of
        None \<Rightarrow> data
      | Some q \<Rightarrow>
          if q = [] then data
          else filter (\<lambda>r. case employee r of
                              None \<Rightarrow> False
                            | Some k \<Rightarrow>
                                (case get_employee s k of
                                   None \<Rightarrow> False
                                 | Some e \<Rightarrow> icontains (first_name (user e)) q \<or>
                                             icontains (last_name (user e)) q)) data)"

text \<open>
  The rows of a query set as the database returns them. The views name no order for
  the table (the model has no \<open>ordering\<close>), so which row comes first is decided by the
  database and its plan for the query, not by the program: it is a parameter of the
  listing views, the rank the database gives each row. With \<open>req_id\<close> as the rank
  the rows come in the order of their primary keys.
\<close>

definition rows_of_query :: "(Request \<Rightarrow> nat) \<Rightarrow> Request list \<Rightarrow> Request list" where
  "rows_of_query rank data = sort_key rank data"

text \<open>
  \<open>order_by\<close> on one of the two date columns, ascending or descending. Rows with
  equal keys stay in the order the database had them in, in both directions.
\<close>

definition order_by :: "string \<Rightarrow> bool \<Rightarrow> Request list \<Rightarrow> Request list" where
  "order_by field descending data =
     (let key = (if field = ''date_of_request'' then date_of_request else from_date)
      in if descending then rev (sort_key key (rev data)) else sort_key key data)"

definition valid_sort_options :: "string list" where
  "valid_sort_options = [''date_of_request'', ''from_date'']"

definition sort_requests :: "string option \<Rightarrow> Request list \<Rightarrow> Request list" where
  "sort_requests sort_option data =
     (case sort_option of
        None \<Rightarrow> data
      | Some opt \<Rightarrow>
          if opt = [] then data
          else (let descending = startswith opt ''-'';
                    clean_sort_option = lstrip (CHR ''-'') opt
                in if clean_sort_option \<in> set valid_sort_options
                   then order_by clean_sort_option descending data else data))"

subsection \<open>listing_requests_admin\<close>

definition listing_requests_admin_view ::
  "db \<Rightarrow> (Request \<Rightarrow> nat) \<Rightarrow> User \<Rightarrow> query_params \<Rightarrow> outcome" where
  "listing_requests_admin_view s rank u q =
     (case get_admin_by_user s u of
        None \<Rightarrow> APIException PermissionDenied
      | Some admin \<Rightarrow>
          (case filter_date_of_request (q_start_date q) (q_end_date q)
                  (filter_status (q_status q) (requests s)) of
             Inl x \<Rightarrow> Unhandled x
           | Inr dated \<Rightarrow>
               (let data = sort_requests (q_sort_by q)
                             (rows_of_query rank
                                (filter_search_name s (q_search_name q) dated))
                in if data = []
                   then Response (Dict [(''message'', ''No requests found'')]) HTTP_404_NOT_FOUND
                   else Response (SerializedRequests data) HTTP_200_OK)))"

definition listing_requests_admin ::
  "db \<Rightarrow> (Request \<Rightarrow> nat) \<Rightarrow> principal \<Rightarrow> query_params \<Rightarrow> outcome" where
  "listing_requests_admin s rank p q =
     permission_classes [IsAuthenticated p, IsAdmin p] p
       (\<lambda>u. listing_requests_admin_view s rank u q) APIException"

subsection \<open>listing_requests_manager\<close>

text \<open>\<open>Request.objects.filter(employee__manager=manager)\<close>.\<close>

definition filter_employee_manager :: "db \<Rightarrow> Employee \<Rightarrow> Request list \<Rightarrow> Request list" where
  "filter_employee_manager s mgr data =
     filter (\<lambda>r. case employee r of
                   None \<Rightarrow> False
                 | Some k \<Rightarrow>
                     (case get_employee s k of
                        None \<Rightarrow> False
                      | Some e \<Rightarrow> emp_manager e = Some (emp_id mgr))) data"

definition listing_requests_manager_view ::
  "db \<Rightarrow> (Request \<Rightarrow> nat) \<Rightarrow> User \<Rightarrow> query_params \<Rightarrow> outcome" where
  "listing_requests_manager_view s rank u q =
     (case get_employee_by_user s u of
        None \<Rightarrow> APIException AuthenticationFailed
      | Some mgr \<Rightarrow>
          (case filter_date_of_request (q_start_date q) (q_end_date q)
                  (filter_status (q_status q)
                     (filter_employee_manager s mgr (requests s))) of
             Inl x \<Rightarrow> Unhandled x
           | Inr dated \<Rightarrow>
               (let data = sort_requests (q_sort_by q)
                             (rows_of_query rank
                                (filter_search_name s (q_search_name q) dated))
                in if data = []
                   then Response (Dict [(''message'', ''No requests found'')]) HTTP_404_NOT_FOUND
                   else Response (SerializedRequests data) HTTP_200_OK)))"

definition listing_requests_manager ::
  "db \<Rightarrow> (Request \<Rightarrow> nat) \<Rightarrow> principal \<Rightarrow> query_params \<Rightarrow> outcome" where
  "listing_requests_manager s rank p q =
     permission_classes [IsAuthenticated p, IsManager s p] p
       (\<lambda>u. listing_requests_manager_view s rank u q) APIException"

subsection \<open>listing_requests_employee\<close>

definition listing_requests_employee_view ::
  "db \<Rightarrow> (Request \<Rightarrow> nat) \<Rightarrow> User \<Rightarrow> string option \<Rightarrow> outcome" where
  "listing_requests_employee_view s rank u search_purpose =
     (case get_employee_by_user s u of
        None \<Rightarrow> APIException AuthenticationFailed
      | Some emp \<Rightarrow>
          if is_manager emp
          then Response (Dict [(''message'', ''Manager cannot make requests.'')])
                 HTTP_404_NOT_FOUND
          else
            (let owned = filter (\<lambda>r. employee r = Some (emp_id emp)) (requests s);
                 found = (case search_purpose of
                            None \<Rightarrow> owned
                          | Some q \<Rightarrow>
                              if q = [] then owned
                              else filter (\<lambda>r. icontains (purpose_of_travel r) q) owned);
                 data = rows_of_query rank found
             in if data = []
                then Response (Dict [(''message'', ''No requests found.'')]) HTTP_404_NOT_FOUND
                else Response (SerializedRequests data) HTTP_200_OK))"

definition listing_requests_employee ::
  "db \<Rightarrow> (Request \<Rightarrow> nat) \<Rightarrow> principal \<Rightarrow> string option \<Rightarrow> outcome" where
  "listing_requests_employee s rank p search_purpose =
     permission_classes [IsAuthenticated p, IsEmployee s p] p
       (\<lambda>u. listing_requests_employee_view s rank u search_purpose) APIException"

subsection \<open>view_employee_admin (PATCH of the manager)\<close>

text \<open>\<open>instance.save()\<close> of an existing employee row.\<close>

definition save_employee :: "Employee \<Rightarrow> db \<Rightarrow> db" where
  "save_employee e s =
     s\<lparr>employees := map (\<lambda>x. if emp_id x = emp_id e then e else x) (employees s)\<rparr>"

text \<open>
  The method PATCH of \<open>view_employee_admin\<close>, for a request body whose only key is
  \<open>manager_id\<close> (\<open>None\<close> is the value null). A value that is true is looked up and
  assigned to \<open>selected_employee.manager\<close>; the serializer has no field of the name
  \<open>manager_id\<close>, so it validates nothing and its \<open>save\<close> stores the instance as the
  view left it. The new manager is not compared with the employee that is edited.
\<close>

definition view_employee_admin_patch_manager_id ::
  "db \<Rightarrow> principal \<Rightarrow> nat \<Rightarrow> nat option \<Rightarrow> outcome \<times> db" where
  "view_employee_admin_patch_manager_id s p employee_id manager_id =
     permission_classes [IsAuthenticated p, IsAdmin p] p
       (\<lambda>u. case get_employee s employee_id of
               None \<Rightarrow>
                 (Response (Dict [(''error'', ''Employee not found'')]) HTTP_404_NOT_FOUND, s)
             | Some selected_employee \<Rightarrow>
                 (case manager_id of
                    None \<Rightarrow>
                      (Response (Dict [(''message'', ''Employee data updated successfully'')])
                         HTTP_200_OK, save_employee selected_employee s)
                  | Some k \<Rightarrow>
                      if k = 0 then
                        (Response (Dict [(''message'', ''Employee data updated successfully'')])
                           HTTP_200_OK, save_employee selected_employee s)
                      else
                        (case get_employee s k of
                           None \<Rightarrow>
                             (Response (Dict [(''error'', ''Manager not found'')])
                                HTTP_400_BAD_REQUEST, s)
                         | Some mgr \<Rightarrow>
                             (Response
                                (Dict [(''message'', ''Employee data updated successfully'')])
                                HTTP_200_OK,
                              save_employee
                                (selected_employee\<lparr>emp_manager := Some (emp_id mgr)\<rparr>) s))))
       (\<lambda>x. (APIException x, s))"

section \<open>A small directory and its requests\<close>

text \<open>
  Two managers, an employee of the first manager, an employee without a manager, an
  employee entered as their own manager, and an administrator.
\<close>

definition user_A :: User where
  "user_A = \<lparr>user_id = 1, username = ''alice'', first_name = ''Alice'', last_name = ''Ames'',
             email = ''alice@example.com'', is_superuser = False\<rparr>"

definition user_B :: User where
  "user_B = \<lparr>user_id = 2, username = ''bob'', first_name = ''Bob'', last_name = ''Birch'',
             email = ''bob@example.com'', is_superuser = False\<rparr>"

definition user_E :: User where
  "user_E = \<lparr>user_id = 3, username = ''erin'', first_name = ''Erin'', last_name = ''Eads'',
             email = ''erin@example.com'', is_superuser = False\<rparr>"

definition user_N :: User where
  "user_N = \<lparr>user_id = 4, username = ''nick'', first_name = ''Nick'', last_name = ''Nash'',
             email = ''nick@example.com'', is_superuser = False\<rparr>"

definition user_S :: User where
  "user_S = \<lparr>user_id = 5, username = ''sam'', first_name = ''Sam'', last_name = ''Self'',
             email = ''sam@example.com'', is_superuser = False\<rparr>"

definition user_root :: User where
  "user_root = \<lparr>user_id = 6, username = ''root'', first_name = ''Rae'', last_name = ''Root'',
                email = ''root@example.com'', is_superuser = True\<rparr>"

definition manager_A :: Employee where
  "manager_A = \<lparr>emp_id = 1, user = user_A, is_manager = True, emp_manager = None,
                employee_status = ''active'', date_created = 738000\<rparr>"

definition manager_B :: Employee where
  "manager_B = \<lparr>emp_id = 2, user = user_B, is_manager = True, emp_manager = None,
                employee_status = ''active'', date_created = 738000\<rparr>"

definition employee_E :: Employee where
  "employee_E = \<lparr>emp_id = 3, user = user_E, is_manager = False, emp_manager = Some 1,
                 employee_status = ''active'', date_created = 738000\<rparr>"

definition employee_N :: Employee where
  "employee_N = \<lparr>emp_id = 4, user = user_N, is_manager = False, emp_manager = None,
                 employee_status = ''active'', date_created = 738000\<rparr>"

definition employee_S :: Employee where
  "employee_S = \<lparr>emp_id = 5, user = user_S, is_manager = False, emp_manager = Some 5,
                 employee_status = ''active'', date_created = 738000\<rparr>"

text \<open>A request of the employee E to the manager A, in a given status.\<close>

definition request_of_E :: "nat \<Rightarrow> string \<Rightarrow> Request" where
  "request_of_E k st =
     \<lparr>req_id = k, employee = Some 3, manager = Some 1,
      purpose_of_travel = ''Conference'', mode_of_travel = ''train'',
      from_date = 738895, to_date = 738897,
      from_where = ''Pune'', to_where = ''Delhi'',
      lodging = False, lodging_info = None, additional_request = None,
      additional_info = None, message_from_manager = None, message_from_admin = None,
      date_of_request = 738880, date_of_approval = None, date_of_rejection = None,
      date_of_revert = None, resubmission_request = False, is_resubmitted = False,
      status_of_request = st\<rparr>"

definition directory :: "Request list \<Rightarrow> db" where
  "directory rs =
     \<lparr>employees = [manager_A, manager_B, employee_E, employee_N, employee_S],
      admins = [\<lparr>admin_id = 1, admin_user = 6\<rparr>],
      requests = rs,
      request_seq = fold max (map req_id rs) 0,
      outbox = []\<rparr>"

text \<open>The form of Scenario 1: two days of travel, no lodging.\<close>

definition form_data :: travel_data where
  "form_data =
     no_data\<lparr>d_purpose_of_travel := Some ''Client visit'', d_mode_of_travel := Some ''flight'',
             d_from_date := Some 738895, d_to_date := Some 738897,
             d_from_where := Some ''Pune'', d_to_where := Some ''Delhi'',
             d_lodging := Some False\<rparr>"

section \<open>The listing contract of the specification\<close>

text \<open>
  The listing contract in the words of the specification: an optional status, an
  inclusive date range on \<open>date_of_request\<close> that is open on the side where no bound
  is given, and an optional substring of the requester's first or last name, compared
  without case. A parameter that is absent or empty does not filter.
\<close>

definition status_matches :: "string option \<Rightarrow> Request \<Rightarrow> bool" where
  "status_matches st r = (case st of None \<Rightarrow> True | Some t \<Rightarrow> t = [] \<or> status_of_request r = t)"

definition in_date_range :: "date_param option \<Rightarrow> date_param option \<Rightarrow> Request \<Rightarrow> bool" where
  "in_date_range a b r =
     ((case a of Some (Wellformed x) \<Rightarrow> x \<le> date_of_request r | _ \<Rightarrow> True) \<and>
      (case b of Some (Wellformed y) \<Rightarrow> date_of_request r \<le> y | _ \<Rightarrow> True))"

definition requester_name_matches :: "db \<Rightarrow> string option \<Rightarrow> Request \<Rightarrow> bool" where
  "requester_name_matches s n r =
     (case n of
        None \<Rightarrow> True
      | Some q \<Rightarrow>
          q = [] \<or>
          (case employee r of
             None \<Rightarrow> False
           | Some k \<Rightarrow>
               (case get_employee s k of
                  None \<Rightarrow> False
                | Some e \<Rightarrow> icontains (first_name (user e)) q \<or>
                            icontains (last_name (user e)) q)))"

definition matches_filters :: "db \<Rightarrow> query_params \<Rightarrow> Request \<Rightarrow> bool" where
  "matches_filters s q r =
     (status_matches (q_status q) r \<and>
      in_date_range (q_start_date q) (q_end_date q) r \<and>
      requester_name_matches s (q_search_name q) r)"

definition purpose_matches :: "string option \<Rightarrow> Request \<Rightarrow> bool" where
  "purpose_matches p r =
     (case p of None \<Rightarrow> True | Some q \<Rightarrow> q = [] \<or> icontains (purpose_of_travel r) q)"

text \<open>The scopes: the subtree of a manager, and the requests an employee owns.\<close>

definition in_subtree_of :: "db \<Rightarrow> Employee \<Rightarrow> Request \<Rightarrow> bool" where
  "in_subtree_of s mgr r =
     (case employee r of
        None \<Rightarrow> False
      | Some k \<Rightarrow>
          (case get_employee s k of
             None \<Rightarrow> False
           | Some e \<Rightarrow> emp_manager e = Some (emp_id mgr)))"

definition owned_by :: "Employee \<Rightarrow> Request \<Rightarrow> bool" where
  "owned_by emp r = (employee r = Some (emp_id emp))"

definition wellformed_dates :: "query_params \<Rightarrow> bool" where
  "wellformed_dates q = (q_start_date q \<noteq> Some Malformed \<and> q_end_date q \<noteq> Some Malformed)"

text \<open>Scenario 6 of the specification.\<close>

definition scenario_6 :: query_params where
  "scenario_6 =
     \<lparr>q_status = Some ''submitted'', q_sort_by = Some ''-from_date'',
      q_start_date = Some (Wellformed 738800), q_end_date = Some (Wellformed 738900),
      q_search_name = None\<rparr>"

text \<open>A query string without parameters.\<close>

definition no_filters :: query_params where
  "no_filters =
     \<lparr>q_status = None, q_sort_by = None, q_start_date = None, q_end_date = None,
      q_search_name = None\<rparr>"

section \<open>Facts about the queries\<close>

lemmas example_defs = directory_def manager_A_def manager_B_def employee_E_def employee_N_def
  employee_S_def user_A_def user_B_def user_E_def user_N_def user_S_def user_root_def
  request_of_E_def

lemma find_same_key:
  "x \<in> set xs \<Longrightarrow> \<exists>y. find (\<lambda>z. f z = f x) xs = Some y \<and> f y = f x"
  by (induction xs) auto

lemma get_employee_of_caller:
  assumes "get_employee_by_user s u = Some e"
  shows "\<exists>e'. get_employee s (emp_id e) = Some e' \<and> emp_id e' = emp_id e"
proof -
  from assms have "e \<in> set (employees s)"
    by (auto simp: get_employee_by_user_def find_Some_iff)
  then show ?thesis
    unfolding get_employee_def by (rule find_same_key)
qed

lemma owner_does_not_differ:
  assumes "get_employee_by_user s u = Some e"
  shows "employee_differs s (Some (emp_id e)) e = Inr False"
  using get_employee_of_caller [OF assms] by (auto simp: employee_differs_def)

lemma manager_wrong_state:
  assumes "IsManager s p" and "get_request s k = Some r"
    and "status_of_request r \<noteq> ''submitted''"
  shows "action_request_manager s today p k action note =
           (Response (Dict [(''error'', ''Cannot Proceed with the action!'')])
              HTTP_400_BAD_REQUEST, s)"
  using assms
  by (cases p)
     (simp_all add: action_request_manager_def permission_classes_def IsManager_def
        IsAuthenticated_def action_request_manager_view_def)

lemma admin_wrong_state:
  assumes "IsAdmin p" and "get_request s k = Some r"
    and "status_of_request r \<noteq> ''approved''"
  shows "close_request_admin s p k action note =
           (Response (Dict [(''error'', ''Request not approved yet!'')])
              HTTP_400_BAD_REQUEST, s)"
  using assms
  by (cases p)
     (simp_all add: close_request_admin_def permission_classes_def IsAdmin_def
        IsAuthenticated_def close_request_admin_view_def)

lemma employee_wrong_state:
  assumes "get_employee_by_user s u = Some e" and "\<not> is_manager e"
    and "get_request s k = Some r" and "employee r = Some (emp_id e)"
    and "status_of_request r \<noteq> ''to_submit''" and "status_of_request r \<noteq> ''reverted''"
  shows "action_request_employee s (Authenticated u) k (Some ''submit'') =
           (Response (Dict [(''message'', ''Invalid action'')]) HTTP_400_BAD_REQUEST, s)"
  using assms owner_does_not_differ [OF assms(1)]
  by (simp add: action_request_employee_def permission_classes_def IsEmployee_def
        IsAuthenticated_def action_request_employee_view_def)

section \<open>The lifecycle guards\<close>

text \<open>
  C2. An action attempted while the request is not in the action's source state is
  answered with status 400 and an error text, and the database is returned as it was:
  no status, date or flag of any request changes and no mail is sent. For
  approve, reject and revert (in fact for any action text sent to the manager endpoint)
  the source state is \<open>submitted\<close>; for submit by the owning employee it is \<open>to_submit\<close>
  or \<open>reverted\<close>; for close by an administrator it is \<open>approved\<close>.
\<close>

theorem invalid_transition_no_change:
  "(IsManager s p \<and> get_request s k = Some r \<and> status_of_request r \<noteq> ''submitted'' \<longrightarrow>
      action_request_manager s today p k action note =
        (Response (Dict [(''error'', ''Cannot Proceed with the action!'')])
           HTTP_400_BAD_REQUEST, s)) \<and>
   (get_employee_by_user s u = Some e \<and> \<not> is_manager e \<and> get_request s k = Some r \<and>
    employee r = Some (emp_id e) \<and>
    status_of_request r \<noteq> ''to_submit'' \<and> status_of_request r \<noteq> ''reverted'' \<longrightarrow>
      action_request_employee s (Authenticated u) k (Some ''submit'') =
        (Response (Dict [(''message'', ''Invalid action'')]) HTTP_400_BAD_REQUEST, s)) \<and>
   (IsAdmin p \<and> get_request s k = Some r \<and> status_of_request r \<noteq> ''approved'' \<longrightarrow>
      close_request_admin s p k action note =
        (Response (Dict [(''error'', ''Request not approved yet!'')])
           HTTP_400_BAD_REQUEST, s))"
  using manager_wrong_state [of s p k r today action "note"]
    employee_wrong_state [of s u e k r]
    admin_wrong_state [of p s k r action "note"]
  by blast

theorem invalid_transition_no_change_witness:
  "IsManager (directory [request_of_E 1 ''approved'']) (Authenticated user_A) \<and>
   action_request_manager (directory [request_of_E 1 ''approved'']) 738890
       (Authenticated user_A) 1 (Some ''approve'') None =
     (Response (Dict [(''error'', ''Cannot Proceed with the action!'')]) HTTP_400_BAD_REQUEST,
      directory [request_of_E 1 ''approved'']) \<and>
   get_employee_by_user (directory [request_of_E 1 ''closed'']) user_E = Some employee_E \<and>
   action_request_employee (directory [request_of_E 1 ''closed''])
       (Authenticated user_E) 1 (Some ''submit'') =
     (Response (Dict [(''message'', ''Invalid action'')]) HTTP_400_BAD_REQUEST,
      directory [request_of_E 1 ''closed'']) \<and>
   IsAdmin (Authenticated user_root) \<and>
   close_request_admin (directory [request_of_E 1 ''closed''])
       (Authenticated user_root) 1 (Some ''close'') (Some ''trip completed'') =
     (Response (Dict [(''error'', ''Request not approved yet!'')]) HTTP_400_BAD_REQUEST,
      directory [request_of_E 1 ''closed''])"
proof -
  let ?a = "directory [request_of_E 1 ''approved'']"
  let ?c = "directory [request_of_E 1 ''closed'']"
  have m: "IsManager ?a (Authenticated user_A)"
    by (simp add: IsManager_def get_employee_by_user_def example_defs)
  have ra: "get_request ?a 1 = Some (request_of_E 1 ''approved'')"
    by (simp add: get_request_def example_defs)
  have rc: "get_request ?c 1 = Some (request_of_E 1 ''closed'')"
    by (simp add: get_request_def example_defs)
  have e: "get_employee_by_user ?c user_E = Some employee_E"
    by (simp add: get_employee_by_user_def example_defs)
  have own: "\<not> is_manager employee_E \<and>
             employee (request_of_E 1 ''closed'') = Some (emp_id employee_E)"
    by (simp add: example_defs)
  have adm: "IsAdmin (Authenticated user_root)"
    by (simp add: IsAdmin_def example_defs)
  have st: "status_of_request (request_of_E 1 ''approved'') \<noteq> ''submitted'' \<and>
            status_of_request (request_of_E 1 ''closed'') \<noteq> ''to_submit'' \<and>
            status_of_request (request_of_E 1 ''closed'') \<noteq> ''reverted'' \<and>
            status_of_request (request_of_E 1 ''closed'') \<noteq> ''approved''"
    by (simp add: request_of_E_def)
  show ?thesis
    using m ra rc e own adm st
      invalid_transition_no_change
        [of "?a" "Authenticated user_A" 1 "request_of_E 1 ''approved''" 738890
            "Some ''approve''" None user_E employee_E]
      invalid_transition_no_change
        [of "?c" "Authenticated user_root" 1 "request_of_E 1 ''closed''" 738890
            "Some ''close''" "Some ''trip completed''" user_E employee_E]
    by blast
qed

section \<open>Facts about the serializer\<close>

lemmas field_defs = char_field_def required_error_def max_length_error_def
  nullable_char_field_def choice_field_def null_characters_error_def

lemma get_employee_key: "get_employee s k = Some m \<Longrightarrow> emp_id m = k"
  by (auto simp: get_employee_def find_Some_iff)

lemma strip_empty: "strip [] = []"
  by (simp add: strip_def)

lemma strip_unpadded:
  assumes "t \<noteq> []" and "hd t \<notin> set whitespace" and "last t \<notin> set whitespace"
  shows "strip t = t"
proof -
  from assms have "dropWhile (\<lambda>c. c \<in> set whitespace) t = t"
    by (cases t) simp_all
  moreover from assms have "dropWhile (\<lambda>c. c \<in> set whitespace) (rev t) = rev t"
    by (cases "rev t") (simp_all add: hd_rev [symmetric])
  ultimately show ?thesis by (simp add: strip_def)
qed

lemma writable_values_other_fields:
  "d_employee (writable_values data) = None"
  "d_manager (writable_values data) = None"
  "d_mode_of_travel (writable_values data) = d_mode_of_travel data"
  "d_from_date (writable_values data) = d_from_date data"
  "d_to_date (writable_values data) = d_to_date data"
  "d_lodging (writable_values data) = d_lodging data"
  "d_lodging_info (writable_values data) = stripped_nullable (d_lodging_info data)"
  "d_status_of_request (writable_values data) = d_status_of_request data"
  by (simp_all add: writable_values_def)

lemma to_internal_value_result:
  "to_internal_value partial data = Inr attrs \<Longrightarrow> attrs = writable_values data"
  by (auto simp: to_internal_value_def Let_def split: if_splits)





text \<open>
  What \<open>validate\<close> does enforce, on a create and on an edit alike: a request body
  that carries both dates in the wrong order, or \<open>lodging\<close> set without lodging
  details, is not valid.
\<close>

lemma unordered_dates_rejected:
  assumes "d_from_date data = Some f" and "d_to_date data = Some t" and "t \<le> f"
  shows "\<exists>errs. is_valid partial data = Inl errs"
proof (cases "to_internal_value partial data")
  case (Inl errs)
  then show ?thesis by (simp add: is_valid_def)
next
  case (Inr attrs)
  from to_internal_value_result [OF Inr] assms
  have "validate attrs = Inl [(''date_error'', ''From date must be earlier than To date.'')]"
    by (simp add: validate_def writable_values_other_fields)
  with Inr show ?thesis by (simp add: is_valid_def)
qed

lemma lodging_without_info_rejected:
  assumes "d_lodging data = Some True"
    and "d_lodging_info data = None \<or> d_lodging_info data = Some None \<or>
         d_lodging_info data = Some (Some [])"
  shows "\<exists>errs. is_valid partial data = Inl errs"
proof (cases "to_internal_value partial data")
  case (Inl errs)
  then show ?thesis by (simp add: is_valid_def)
next
  case (Inr attrs)
  from to_internal_value_result [OF Inr] assms
  have "\<exists>errs. validate attrs = Inl errs"
    by (auto simp: validate_def truthy_def Let_def writable_values_other_fields
        stripped_nullable_def strip_empty split: option.splits)
  with Inr show ?thesis by (auto simp: is_valid_def)
qed

lemma form_data_values: "writable_values form_data = form_data"
  by (simp add: writable_values_def stripped_def stripped_nullable_def form_data_def
      no_data_def strip_unpadded whitespace_def)

lemma form_data_valid: "is_valid False form_data = Inr form_data"
proof -
  have "to_internal_value False form_data = Inr (writable_values form_data)"
    by (simp add: to_internal_value_def form_data_def no_data_def field_defs
        MODE_CHOICES_def STATUS_CHOICES_def strip_unpadded whitespace_def)
  moreover have "validate form_data = Inr form_data"
    by (simp add: validate_def form_data_def no_data_def truthy_def)
  ultimately show ?thesis
    by (simp add: is_valid_def form_data_values)
qed

text \<open>
  The form of Scenario 1 with a purpose of three spaces, and with a purpose that holds
  the character NUL, is not valid; a padded purpose is valid and handed on stripped.
\<close>

lemma blank_purpose_rejected:
  "is_valid False (form_data\<lparr>d_purpose_of_travel := Some ''   ''\<rparr>) =
     Inl [(''purpose_of_travel'', ''This field may not be blank.'')]"
  by (simp add: is_valid_def to_internal_value_def form_data_def no_data_def field_defs
      MODE_CHOICES_def STATUS_CHOICES_def strip_def strip_unpadded whitespace_def)

lemma null_character_rejected:
  "is_valid False (form_data\<lparr>d_purpose_of_travel := Some [CHR ''a'', CHR 0x00, CHR ''b'']\<rparr>) =
     Inl [(''purpose_of_travel'', ''Null characters are not allowed.'')]"
  by (simp add: is_valid_def to_internal_value_def form_data_def no_data_def field_defs
      MODE_CHOICES_def STATUS_CHOICES_def strip_unpadded whitespace_def)

lemma padded_purpose_stripped:
  "is_valid False (form_data\<lparr>d_purpose_of_travel := Some '' Client visit ''\<rparr>) =
     Inr form_data"
proof -
  have p: "strip '' Client visit '' = ''Client visit''"
    by (simp add: strip_def whitespace_def)
  have "to_internal_value False (form_data\<lparr>d_purpose_of_travel := Some '' Client visit ''\<rparr>) =
          Inr (writable_values (form_data\<lparr>d_purpose_of_travel := Some '' Client visit ''\<rparr>))"
    by (simp add: to_internal_value_def form_data_def no_data_def field_defs
        MODE_CHOICES_def STATUS_CHOICES_def p strip_unpadded whitespace_def)
  moreover have "writable_values (form_data\<lparr>d_purpose_of_travel := Some '' Client visit ''\<rparr>) =
          form_data"
    by (simp add: writable_values_def stripped_def stripped_nullable_def form_data_def
        no_data_def p strip_unpadded whitespace_def)
  moreover have "validate form_data = Inr form_data"
    by (simp add: validate_def form_data_def no_data_def truthy_def)
  ultimately show ?thesis
    by (simp add: is_valid_def)
qed

section \<open>Creating a request\<close>





section \<open>Exceptions that leave a view\<close>

text \<open>
  C8. The claim that no input lets an exception escape a handler fails on the two
  inputs it names. An employee without a manager who sends a valid form, and an
  administrator who closes an approved request whose employee reference is null, both
  reach the attribute access on \<open>None\<close> that builds the recipient list: the view ends
  with \<open>AttributeError\<close>, no response is built and the database is as before.
\<close>

theorem null_reference_escapes_handler:
  "is_valid False form_data = Inr form_data \<and>
   emp_request_form (directory []) 738890 (Authenticated user_N) form_data =
     (Unhandled AttributeError, directory []) \<and>
   close_request_admin (directory [(request_of_E 1 ''approved'')\<lparr>employee := None\<rparr>])
       (Authenticated user_root) 1 (Some ''close'') (Some ''trip completed'') =
     (Unhandled AttributeError,
      directory [(request_of_E 1 ''approved'')\<lparr>employee := None\<rparr>])"
  by (simp add: form_data_valid emp_request_form_def close_request_admin_def
      permission_classes_def IsAuthenticated_def IsEmployee_def IsAdmin_def
      emp_request_form_view_def close_request_admin_view_def get_employee_by_user_def
      get_request_def related_employee_def example_defs)

section \<open>Evaluating the views on the small directory\<close>

lemmas view_defs = permission_classes_def IsAuthenticated_def IsEmployee_def IsManager_def
  IsAdmin_def get_employee_by_user_def get_employee_def get_request_def related_employee_def
  employee_differs_def save_request_def send_mail_def HTTP_200_OK_def HTTP_400_BAD_REQUEST_def
  HTTP_404_NOT_FOUND_def from_email_address_def

lemmas serializer_defs = is_valid_def to_internal_value_def writable_values_def
  stripped_def stripped_nullable_def strip_empty validate_def no_data_def
  field_defs MODE_CHOICES_def STATUS_CHOICES_def truthy_def update_def upd_def

lemma str_nat_3: "str_nat 3 = ''3''"
  by code_simp

lemma str_nat_5: "str_nat 5 = ''5''"
  by code_simp

lemma validate_manager_check_unreachable:
  assumes "to_internal_value partial data = Inr attrs"
  shows "validate attrs \<noteq> Inl [(''manager_error'', ''Employee cannot be their own manager.'')]"
  using to_internal_value_result [OF assms]
  by (simp add: validate_def Let_def writable_values_other_fields split: option.splits)

section \<open>The invariants of a stored request\<close>

text \<open>
  The directory of the examples is reachable: when the employee S has no manager, the
  administrator's PATCH that names S as the manager of S is accepted and stored.
\<close>

lemma self_assignment_is_stored:
  "view_employee_admin_patch_manager_id
       ((directory [])\<lparr>employees := [manager_A, manager_B, employee_E, employee_N,
                                      employee_S\<lparr>emp_manager := None\<rparr>]\<rparr>)
       (Authenticated user_root) 5 (Some 5) =
     (Response (Dict [(''message'', ''Employee data updated successfully'')]) HTTP_200_OK,
      directory [])"
  by (simp add: view_employee_admin_patch_manager_id_def save_employee_def view_defs
      example_defs)

text \<open>
  C3. After a successful create the employee of a request should differ from its
  manager. The check of \<open>validate\<close> that is meant to ensure it reads two keys which
  the serializer never passes on (both are read-only), so it cannot fire
  (\<open>validate_manager_check_unreachable\<close>), and the view takes the manager from the
  caller's row. For the employee who is entered as their own manager (an entry the
  administrator's PATCH stores, \<open>self_assignment_is_stored\<close>), the valid form is
  accepted and the stored request has that employee as both employee and manager.
\<close>

theorem self_managed_employee_creates_self_approved_request:
  "is_valid False form_data = Inr form_data \<and>
   fst (emp_request_form (directory []) 738890 (Authenticated user_S) form_data) =
     Response (Dict [(''message'', ''Request Submitted'')]) HTTP_200_OK \<and>
   map employee (requests (snd (emp_request_form (directory []) 738890
                                  (Authenticated user_S) form_data))) = [Some 5] \<and>
   map manager (requests (snd (emp_request_form (directory []) 738890
                                 (Authenticated user_S) form_data))) = [Some 5]"
  apply (simp add: form_data_valid emp_request_form_def emp_request_form_view_def view_defs
      example_defs next_request_id_def)
  apply (simp add: create_def upd_def form_data_def no_data_def view_defs)
  done

text \<open>
  C4. After a successful edit \<open>from_date\<close> should be strictly before \<open>to_date\<close>.
  \<open>validate\<close> compares the two dates only when the request body carries both. An
  edit that sends only a new \<open>from_date\<close>, later than the stored \<open>to_date\<close>, is
  accepted, and the stored request then starts after it ends. (A body with both dates
  out of order is rejected, \<open>unordered_dates_rejected\<close>, and a create always carries
  both, \<open>is_valid_full\<close>.)
\<close>

theorem partial_edit_stores_unordered_dates:
  "edit_request_employee (directory [request_of_E 1 ''submitted'']) (Authenticated user_E) 1
       (no_data\<lparr>d_from_date := Some 738900\<rparr>) =
     (Response (SerializedRequest ((request_of_E 1 ''submitted'')\<lparr>from_date := 738900\<rparr>))
        HTTP_200_OK,
      directory [(request_of_E 1 ''submitted'')\<lparr>from_date := 738900\<rparr>]) \<and>
   to_date ((request_of_E 1 ''submitted'')\<lparr>from_date := 738900\<rparr>) <
     from_date ((request_of_E 1 ''submitted'')\<lparr>from_date := 738900\<rparr>)"
  by (simp add: edit_request_employee_def edit_request_employee_view_def view_defs
      serializer_defs example_defs)

text \<open>
  C5. After a successful edit a request with \<open>lodging\<close> set should have a non-empty
  \<open>lodging_info\<close>. \<open>validate\<close> looks at \<open>lodging\<close> in the request body only. An edit
  that sends only an empty \<open>lodging_info\<close> for a stored request with lodging is
  accepted, and the stored request then has lodging without lodging details. (A body
  that itself sets \<open>lodging\<close> without details is rejected,
  \<open>lodging_without_info_rejected\<close>.)
\<close>

theorem partial_edit_blanks_lodging_info:
  "edit_request_employee
       (directory [(request_of_E 1 ''submitted'')\<lparr>lodging := True, lodging_info := Some ''Hotel''\<rparr>])
       (Authenticated user_E) 1 (no_data\<lparr>d_lodging_info := Some (Some [])\<rparr>) =
     (Response (SerializedRequest
          ((request_of_E 1 ''submitted'')\<lparr>lodging := True, lodging_info := Some []\<rparr>))
        HTTP_200_OK,
      directory [(request_of_E 1 ''submitted'')\<lparr>lodging := True, lodging_info := Some []\<rparr>])"
  by (simp add: edit_request_employee_def edit_request_employee_view_def view_defs
      serializer_defs example_defs)

section \<open>Submitting and resubmitting\<close>

text \<open>
  C6. A submit of a reverted request by its owner sets \<open>is_resubmitted\<close>, sets the
  status to \<open>submitted\<close> and leaves \<open>resubmission_request\<close> as it was; the mail to the
  manager, however, carries the text of a first submission (\<open>submitted\<close>), and the
  submit of a request in \<open>to_submit\<close> carries the text of a resubmission
  (\<open>resubmitted\<close>): the two branches that build the text are exchanged.
\<close>

theorem resubmission_gets_first_submission_text:
  "action_request_employee
       (directory [(request_of_E 1 ''reverted'')\<lparr>resubmission_request := True\<rparr>])
       (Authenticated user_E) 1 (Some ''submit'') =
     (Response (Dict [(''message'', ''status updated''), (''action'', ''submit'')]) HTTP_200_OK,
      send_mail ''Request submitted from employee-3''
        ''I have submitted a request for travel. Please look into the details. Thanks & Regards. - Admin''
        from_email_address [''alice@example.com'']
        (directory [(request_of_E 1 ''submitted'')
                      \<lparr>resubmission_request := True, is_resubmitted := True\<rparr>])) \<and>
   action_request_employee (directory [request_of_E 1 ''to_submit''])
       (Authenticated user_E) 1 (Some ''submit'') =
     (Response (Dict [(''message'', ''status updated''), (''action'', ''submit'')]) HTTP_200_OK,
      send_mail ''Request resubmitted from employee-3''
        ''I have resubmitted a request for travel. Please look into the details. Thanks & Regards. - Admin''
        from_email_address [''alice@example.com'']
        (directory [request_of_E 1 ''submitted'']))"
  by (simp add: action_request_employee_def action_request_employee_view_def view_defs
      serializer_defs example_defs str_nat_3)

section \<open>Who may act on a submitted request\<close>

lemma manager_action_payload_valid:
  assumes "case note of None \<Rightarrow> True
           | Some t \<Rightarrow> strip t = [] \<or> (length (strip t) \<le> 300 \<and> CHR 0x00 \<notin> set (strip t))"
    and "st \<in> set STATUS_CHOICES"
    and "d_from_date stamp = None" and "d_to_date stamp = None" and "d_lodging stamp = None"
    and "d_purpose_of_travel stamp = None" and "d_mode_of_travel stamp = None"
    and "d_from_where stamp = None" and "d_to_where stamp = None"
    and "d_lodging_info stamp = None" and "d_additional_request stamp = None"
    and "d_additional_info stamp = None" and "d_message_from_admin stamp = None"
  shows "is_valid True (stamp\<lparr>d_status_of_request := Some st, d_message_from_manager := Some note\<rparr>)
           = Inr (stamp\<lparr>d_status_of_request := Some st,
                        d_message_from_manager := Some (map_option strip note),
                        d_employee := None, d_manager := None\<rparr>)"
  using assms
  by (auto simp: is_valid_def to_internal_value_def validate_def field_defs
      writable_values_def stripped_def stripped_nullable_def
      split: option.splits)

text \<open>
  The view does not read the manager of the request. For a caller who is a manager, a
  request in status \<open>submitted\<close> whose employee reference names a row, one of the three
  actions and a note the text field accepts, the action succeeds whoever the manager of
  the request is (the lemma has no hypothesis on it): the request gets the new status,
  the stripped note and today's date in the column of the action, a revert also sets
  \<open>resubmission_request\<close>, and the employee is notified.
\<close>

lemma manager_action_ignores_request_manager:
  assumes "IsManager s p" and "get_request s k = Some r"
    and "status_of_request r = ''submitted''"
    and "employee r = Some j" and "get_employee s j = Some e"
    and "a \<in> {''approve'', ''reject'', ''revert''}"
    and "case note of None \<Rightarrow> True
         | Some t \<Rightarrow> strip t = [] \<or> (length (strip t) \<le> 300 \<and> CHR 0x00 \<notin> set (strip t))"
  shows "action_request_manager s today p k (Some a) note =
        (Response (Dict [(''message'', ''status updated''), (''action'', a)]) HTTP_200_OK,
         send_mail
           (''Request '' @ (if a = ''approve'' then ''approved''
                            else if a = ''reject'' then ''rejected'' else ''reverted''))
           (''Note:'' @ str_opt note @ '' '' @ newline @ '' Your request for travel has been '' @
              (if a = ''approve'' then ''approved''
               else if a = ''reject'' then ''rejected'' else ''reverted'') @
              ''. Thanks & Regards. - Admin'')
           from_email_address [email (user e)]
           (save_request
              (r\<lparr>message_from_manager := map_option strip note,
                  date_of_approval := (if a = ''approve'' then Some today else date_of_approval r),
                  date_of_rejection := (if a = ''reject'' then Some today else date_of_rejection r),
                  date_of_revert := (if a = ''revert'' then Some today else date_of_revert r),
                  resubmission_request :=
                    (if a = ''revert'' then True else resubmission_request r),
                  status_of_request :=
                    (if a = ''approve'' then ''approved''
                     else if a = ''reject'' then ''rejected'' else ''reverted'')\<rparr>) s))"
proof -
  from assms(1) obtain u where p: "p = Authenticated u" by (cases p) (auto simp: IsManager_def)
  have rel: "related_employee s (employee r) = Inr e"
    using assms(4,5) by (simp add: related_employee_def)
  note g = assms(2) assms(3) assms(1)
  have v: "\<And>stamp st. st \<in> set STATUS_CHOICES \<Longrightarrow>
     stamp \<in> {no_data\<lparr>d_date_of_approval := Some (Some today)\<rparr>,
               no_data\<lparr>d_date_of_rejection := Some (Some today)\<rparr>,
               no_data\<lparr>d_date_of_revert := Some (Some today)\<rparr>} \<Longrightarrow>
     is_valid True (stamp\<lparr>d_status_of_request := Some st, d_message_from_manager := Some note\<rparr>)
       = Inr (stamp\<lparr>d_status_of_request := Some st,
                    d_message_from_manager := Some (map_option strip note),
                    d_employee := None, d_manager := None\<rparr>)"
    by (rule manager_action_payload_valid [OF assms(7)]) (auto simp: no_data_def)
  from assms(6) consider "a = ''approve''" | "a = ''reject''" | "a = ''revert''" by auto
  then show ?thesis
  proof cases
    case 1
    with g rel p v [of "''approved''" "no_data\<lparr>d_date_of_approval := Some (Some today)\<rparr>"]
    show ?thesis
      by (simp add: action_request_manager_def permission_classes_def IsAuthenticated_def
          action_request_manager_view_def STATUS_CHOICES_def
          update_def upd_def no_data_def Let_def)
  next
    case 2
    with g rel p v [of "''rejected''" "no_data\<lparr>d_date_of_rejection := Some (Some today)\<rparr>"]
    show ?thesis
      by (simp add: action_request_manager_def permission_classes_def IsAuthenticated_def
          action_request_manager_view_def STATUS_CHOICES_def
          update_def upd_def no_data_def Let_def)
  next
    case 3
    with g rel p v [of "''reverted''" "no_data\<lparr>d_date_of_revert := Some (Some today)\<rparr>"]
    show ?thesis
      by (simp add: action_request_manager_def permission_classes_def IsAuthenticated_def
          action_request_manager_view_def STATUS_CHOICES_def
          update_def upd_def no_data_def Let_def)
  qed
qed

text \<open>
  C1. Only the manager a request names may approve, reject or revert it; any other
  manager is to be refused, with the request unchanged. The view checks the role of
  the caller and nothing else. Here the request of the employee E names manager A,
  and E is in the subtree of A, so the listing of manager B never shows it; B sends
  approve for it all the same: the answer is 200, the request is approved and stamped
  in the database, and the employee is told so.
\<close>

theorem other_manager_approves_request:
  "manager (request_of_E 1 ''submitted'') = Some (emp_id manager_A) \<and>
   get_employee_by_user (directory [request_of_E 1 ''submitted'']) user_B = Some manager_B \<and>
   emp_id manager_B \<noteq> emp_id manager_A \<and>
   action_request_manager (directory [request_of_E 1 ''submitted'']) 738890
       (Authenticated user_B) 1 (Some ''approve'') None =
     (Response (Dict [(''message'', ''status updated''), (''action'', ''approve'')]) HTTP_200_OK,
      send_mail ''Request approved''
        (''Note:None '' @ newline @
         '' Your request for travel has been approved. Thanks & Regards. - Admin'')
        from_email_address [''erin@example.com'']
        (directory [(request_of_E 1 ''approved'')\<lparr>date_of_approval := Some 738890\<rparr>])) \<and>
   listing_requests_manager (directory [request_of_E 1 ''submitted'']) req_id
       (Authenticated user_B) no_filters =
     Response (Dict [(''message'', ''No requests found'')]) HTTP_404_NOT_FOUND"
proof -
  have act: "action_request_manager (directory [request_of_E 1 ''submitted'']) 738890
       (Authenticated user_B) 1 (Some ''approve'') None =
     (Response (Dict [(''message'', ''status updated''), (''action'', ''approve'')]) HTTP_200_OK,
      send_mail ''Request approved''
        (''Note:None '' @ newline @
         '' Your request for travel has been approved. Thanks & Regards. - Admin'')
        from_email_address [''erin@example.com'']
        (directory [(request_of_E 1 ''approved'')\<lparr>date_of_approval := Some 738890\<rparr>]))"
    by (simp add: action_request_manager_def action_request_manager_view_def view_defs
        serializer_defs example_defs str_opt_def Let_def)
  have lst: "listing_requests_manager (directory [request_of_E 1 ''submitted'']) req_id
       (Authenticated user_B) no_filters =
     Response (Dict [(''message'', ''No requests found'')]) HTTP_404_NOT_FOUND"
    by (simp add: listing_requests_manager_def listing_requests_manager_view_def
        filter_employee_manager_def filter_status_def filter_date_of_request_def
        filter_search_name_def sort_requests_def rows_of_query_def no_filters_def
        view_defs example_defs)
  have who: "manager (request_of_E 1 ''submitted'') = Some (emp_id manager_A) \<and>
     get_employee_by_user (directory [request_of_E 1 ''submitted'']) user_B = Some manager_B \<and>
     emp_id manager_B \<noteq> emp_id manager_A"
    by (simp add: view_defs example_defs)
  from who act lst show ?thesis by simp
qed

section \<open>Listing requests\<close>

lemma filter_status_eq: "filter_status st data = filter (status_matches st) data"
  by (cases st) (auto simp: filter_status_def status_matches_def filter_id_conv intro!: filter_cong)

lemma filter_date_of_request_eq:
  assumes "a \<noteq> Some Malformed" and "b \<noteq> Some Malformed"
  shows "filter_date_of_request a b data = Inr (filter (in_date_range a b) data)"
  using assms
  by (auto simp: filter_date_of_request_def in_date_range_def filter_id_conv
      split: option.splits date_param.splits intro!: filter_cong)

lemma filter_search_name_eq:
  "filter_search_name s n data = filter (requester_name_matches s n) data"
  by (cases n)
     (auto simp: filter_search_name_def requester_name_matches_def filter_id_conv
       intro!: filter_cong)

lemma filter_employee_manager_eq:
  "filter_employee_manager s mgr data = filter (in_subtree_of s mgr) data"
  by (auto simp: filter_employee_manager_def in_subtree_of_def intro!: filter_cong)

lemma set_rows_of_query: "set (rows_of_query rank xs) = set xs"
  by (simp add: rows_of_query_def)

lemma length_rows_of_query: "length (rows_of_query rank xs) = length xs"
  by (simp add: rows_of_query_def)

lemma set_order_by: "set (order_by f d xs) = set xs"
  by (simp add: order_by_def Let_def)

lemma length_order_by: "length (order_by f d xs) = length xs"
  by (simp add: order_by_def Let_def)

lemma set_sort_requests: "set (sort_requests opt xs) = set xs"
  by (auto simp: sort_requests_def Let_def set_order_by split: option.splits)

lemma length_sort_requests: "length (sort_requests opt xs) = length xs"
  by (auto simp: sort_requests_def Let_def length_order_by split: option.splits)

lemma sorted_rows_empty: "sort_requests opt (rows_of_query rank xs) = [] \<longleftrightarrow> xs = []"
  using length_sort_requests [of opt "rows_of_query rank xs"] length_rows_of_query [of rank xs]
  by (metis length_0_conv)

lemma rows_of_query_empty: "rows_of_query rank xs = [] \<longleftrightarrow> xs = []"
  using length_rows_of_query [of rank xs] by (metis length_0_conv)

lemma filter_date_of_request_subset:
  "filter_date_of_request a b data = Inr dated \<Longrightarrow> set dated \<subseteq> set data"
  by (auto simp: filter_date_of_request_def split: option.splits date_param.splits)

text \<open>
  The decision of the three listings, for a caller the view admits and date parameters
  that parse: 404 with the text \<open>No requests found\<close> exactly when no request of the
  caller's scope matches the filters, and otherwise 200 with the matching requests, in
  the order of the database and of \<open>sort_by\<close>.
\<close>

lemma admin_listing:
  assumes "get_admin_by_user s u = Some adm" and "is_superuser u" and "wellformed_dates q"
  shows "listing_requests_admin s rank (Authenticated u) q =
     (if filter (matches_filters s q) (requests s) = []
      then Response (Dict [(''message'', ''No requests found'')]) HTTP_404_NOT_FOUND
      else Response (SerializedRequests
             (sort_requests (q_sort_by q)
                (rows_of_query rank (filter (matches_filters s q) (requests s)))))
             HTTP_200_OK)"
  using assms filter_date_of_request_eq [of "q_start_date q" "q_end_date q"]
  by (simp add: listing_requests_admin_def permission_classes_def IsAuthenticated_def
      IsAdmin_def listing_requests_admin_view_def wellformed_dates_def filter_status_eq
      filter_search_name_eq matches_filters_def [abs_def] sorted_rows_empty Let_def)

lemma manager_listing:
  assumes "get_employee_by_user s u = Some mgr" and "is_manager mgr" and "wellformed_dates q"
  shows "listing_requests_manager s rank (Authenticated u) q =
     (if filter (\<lambda>r. in_subtree_of s mgr r \<and> matches_filters s q r) (requests s) = []
      then Response (Dict [(''message'', ''No requests found'')]) HTTP_404_NOT_FOUND
      else Response (SerializedRequests
             (sort_requests (q_sort_by q)
                (rows_of_query rank
                   (filter (\<lambda>r. in_subtree_of s mgr r \<and> matches_filters s q r) (requests s)))))
             HTTP_200_OK)"
  using assms filter_date_of_request_eq [of "q_start_date q" "q_end_date q"]
  by (simp add: listing_requests_manager_def permission_classes_def IsAuthenticated_def
      IsManager_def listing_requests_manager_view_def wellformed_dates_def filter_status_eq
      filter_search_name_eq filter_employee_manager_eq matches_filters_def [abs_def]
      sorted_rows_empty Let_def)

lemma employee_listing:
  assumes "get_employee_by_user s u = Some emp" and "\<not> is_manager emp"
  shows "listing_requests_employee s rank (Authenticated u) purpose =
     (if filter (\<lambda>r. owned_by emp r \<and> purpose_matches purpose r) (requests s) = []
      then Response (Dict [(''message'', ''No requests found.'')]) HTTP_404_NOT_FOUND
      else Response (SerializedRequests
             (rows_of_query rank
                (filter (\<lambda>r. owned_by emp r \<and> purpose_matches purpose r) (requests s))))
             HTTP_200_OK)"
proof -
  have m: "(case purpose of
              None \<Rightarrow> filter (\<lambda>r. employee r = Some (emp_id emp)) (requests s)
            | Some q \<Rightarrow>
                if q = [] then filter (\<lambda>r. employee r = Some (emp_id emp)) (requests s)
                else filter (\<lambda>r. icontains (purpose_of_travel r) q)
                       (filter (\<lambda>r. employee r = Some (emp_id emp)) (requests s))) =
           filter (\<lambda>r. owned_by emp r \<and> purpose_matches purpose r) (requests s)"
    by (cases purpose) (auto simp: owned_by_def purpose_matches_def intro!: filter_cong)
  show ?thesis
    using assms
    by (simp add: listing_requests_employee_def permission_classes_def IsAuthenticated_def
        IsEmployee_def listing_requests_employee_view_def m rows_of_query_empty Let_def)
qed

lemma in_subtree_ofD:
  assumes "in_subtree_of s mgr r"
  shows "\<exists>e. employee r = Some (emp_id e) \<and> get_employee s (emp_id e) = Some e \<and>
             emp_manager e = Some (emp_id mgr)"
proof -
  from assms obtain k e where k: "employee r = Some k" "get_employee s k = Some e"
    "emp_manager e = Some (emp_id mgr)"
    by (auto simp: in_subtree_of_def split: option.splits)
  moreover have "emp_id e = k" using k(2) by (rule get_employee_key)
  ultimately show ?thesis by auto
qed

lemma manager_listing_scope:
  assumes "get_employee_by_user s u = Some mgr"
    and "listing_requests_manager s rank (Authenticated u) q =
           Response (SerializedRequests data) code"
  shows "set data \<subseteq> {r \<in> set (requests s). in_subtree_of s mgr r}"
proof (cases "is_manager mgr")
  case False
  with assms show ?thesis
    by (simp add: listing_requests_manager_def permission_classes_def IsAuthenticated_def
        IsManager_def)
next
  case True
  with assms obtain dated where
    d: "filter_date_of_request (q_start_date q) (q_end_date q)
          (filter_status (q_status q) (filter_employee_manager s mgr (requests s))) = Inr dated"
    and e: "data = sort_requests (q_sort_by q)
                     (rows_of_query rank (filter_search_name s (q_search_name q) dated))"
    by (auto simp: listing_requests_manager_def permission_classes_def IsAuthenticated_def
        IsManager_def listing_requests_manager_view_def Let_def
        split: sum.splits if_splits)
  from filter_date_of_request_subset [OF d]
  have "set dated \<subseteq> {r \<in> set (requests s). in_subtree_of s mgr r}"
    by (auto simp: filter_status_eq filter_employee_manager_eq)
  with e show ?thesis
    by (auto simp: set_sort_requests set_rows_of_query filter_search_name_eq)
qed

lemma employee_listing_scope:
  assumes "get_employee_by_user s u = Some emp"
    and "listing_requests_employee s rank (Authenticated u) purpose =
           Response (SerializedRequests data) code"
  shows "set data \<subseteq> {r \<in> set (requests s). employee r = Some (emp_id emp)}"
  using assms
  by (cases "is_manager emp")
     (auto simp: listing_requests_employee_def permission_classes_def IsAuthenticated_def
        IsEmployee_def listing_requests_employee_view_def Let_def set_rows_of_query
        split: option.splits if_splits)

lemmas listing_defs = matches_filters_def status_matches_def in_date_range_def
  requester_name_matches_def purpose_matches_def in_subtree_of_def owned_by_def
  wellformed_dates_def scenario_6_def no_filters_def sort_requests_def lstrip_def
  valid_sort_options_def order_by_def rows_of_query_def get_admin_by_user_def

text \<open>
  C9. Every listing is to answer with the not-found signal when no request matches, for
  every combination of filters. The administrator's and the manager's listing hand
  \<open>start_date\<close> and \<open>end_date\<close> to the date column as they come. On an empty table no
  request matches any filter, yet with a start date that is not a date the two views
  end with Django's \<open>ValidationError\<close>, which nothing catches, instead of the 404.
  For dates that parse the decision is the claimed one (\<open>admin_listing\<close>,
  \<open>manager_listing\<close>, \<open>employee_listing\<close>).
\<close>

theorem malformed_date_escapes_listing:
  "requests (directory []) = [] \<and>
   listing_requests_admin (directory []) req_id (Authenticated user_root)
       (no_filters\<lparr>q_start_date := Some Malformed\<rparr>) =
     Unhandled ValidationError \<and>
   listing_requests_manager (directory []) req_id (Authenticated user_A)
       (no_filters\<lparr>q_start_date := Some Malformed\<rparr>) =
     Unhandled ValidationError \<and>
   listing_requests_admin (directory []) req_id (Authenticated user_root) no_filters =
     Response (Dict [(''message'', ''No requests found'')]) HTTP_404_NOT_FOUND"
  by (simp add: listing_requests_admin_def listing_requests_admin_view_def
      listing_requests_manager_def listing_requests_manager_view_def
      filter_employee_manager_def filter_status_def filter_date_of_request_def
      filter_search_name_def listing_defs view_defs example_defs)

text \<open>
  C10. Whatever the filters, the sort option and the order in which the database
  returns the rows, every request a manager listing returns is a stored request whose
  employee is a row of the directory with the calling manager as its manager, and every
  request an employee listing returns is a stored request whose employee is the caller.
\<close>

theorem listing_stays_in_scope:
  "(get_employee_by_user s u = Some mgr \<and>
    listing_requests_manager s rank (Authenticated u) q =
      Response (SerializedRequests data) code \<longrightarrow>
      (\<forall>r \<in> set data. r \<in> set (requests s) \<and>
         (\<exists>e. employee r = Some (emp_id e) \<and> get_employee s (emp_id e) = Some e \<and>
              emp_manager e = Some (emp_id mgr)))) \<and>
   (get_employee_by_user s u = Some emp \<and>
    listing_requests_employee s rank (Authenticated u) purpose =
      Response (SerializedRequests data) code \<longrightarrow>
      (\<forall>r \<in> set data. r \<in> set (requests s) \<and> employee r = Some (emp_id emp)))"
  using manager_listing_scope [of s u mgr rank q data code]
    employee_listing_scope [of s u emp rank purpose data code] in_subtree_ofD [of s mgr]
  by blast

theorem listing_stays_in_scope_witness:
  "listing_requests_manager
       (directory [request_of_E 1 ''submitted'',
                   (request_of_E 2 ''submitted'')\<lparr>employee := Some 4\<rparr>])
       req_id (Authenticated user_A) scenario_6 =
     Response (SerializedRequests [request_of_E 1 ''submitted'']) HTTP_200_OK \<and>
   (\<exists>e. employee (request_of_E 1 ''submitted'') = Some (emp_id e) \<and>
        get_employee (directory [request_of_E 1 ''submitted'',
                                 (request_of_E 2 ''submitted'')\<lparr>employee := Some 4\<rparr>])
          (emp_id e) = Some e \<and>
        emp_manager e = Some (emp_id manager_A)) \<and>
   listing_requests_employee
       (directory [request_of_E 1 ''submitted'',
                   (request_of_E 2 ''submitted'')\<lparr>employee := Some 4\<rparr>])
       req_id (Authenticated user_N) None =
     Response (SerializedRequests [(request_of_E 2 ''submitted'')\<lparr>employee := Some 4\<rparr>])
       HTTP_200_OK \<and>
   employee ((request_of_E 2 ''submitted'')\<lparr>employee := Some 4\<rparr>) = Some (emp_id employee_N)"
proof -
  let ?d = "directory [request_of_E 1 ''submitted'',
                       (request_of_E 2 ''submitted'')\<lparr>employee := Some 4\<rparr>]"
  have a: "get_employee_by_user ?d user_A = Some manager_A"
    by (simp add: view_defs example_defs)
  have n: "get_employee_by_user ?d user_N = Some employee_N"
    by (simp add: view_defs example_defs)
  have 1: "listing_requests_manager ?d req_id (Authenticated user_A) scenario_6 =
             Response (SerializedRequests [request_of_E 1 ''submitted'']) HTTP_200_OK"
    by (simp add: listing_requests_manager_def listing_requests_manager_view_def
        filter_employee_manager_def filter_status_def filter_date_of_request_def
        filter_search_name_def listing_defs view_defs example_defs)
  have 2: "listing_requests_employee ?d req_id (Authenticated user_N) None =
             Response (SerializedRequests [(request_of_E 2 ''submitted'')\<lparr>employee := Some 4\<rparr>])
               HTTP_200_OK"
    by (simp add: listing_requests_employee_def listing_requests_employee_view_def
        listing_defs view_defs example_defs)
  from listing_stays_in_scope
         [of ?d user_A manager_A req_id scenario_6 "[request_of_E 1 ''submitted'']" HTTP_200_OK]
       a 1
  have 3: "\<exists>e. employee (request_of_E 1 ''submitted'') = Some (emp_id e) \<and>
               get_employee ?d (emp_id e) = Some e \<and> emp_manager e = Some (emp_id manager_A)"
    by simp
  from listing_stays_in_scope
         [of ?d user_N _ req_id _ "[(request_of_E 2 ''submitted'')\<lparr>employee := Some 4\<rparr>]"
             HTTP_200_OK employee_N None] n 2
  have 4: "employee ((request_of_E 2 ''submitted'')\<lparr>employee := Some 4\<rparr>) =
             Some (emp_id employee_N)"
    by simp
  from 1 2 3 4 show ?thesis by blast
qed

end
